theory Spec2Isabelle
  imports Main
begin

section \<open>The command-line entry point: osqlcli/main.py\<close>

subsection \<open>Python values used by main.py\<close>

text \<open>
  Python strings are modelled as \<open>string\<close>. An attribute produced by the argument
  parser that holds either \<open>None\<close> or a string is a \<open>string option\<close>; its truth value
  in a condition (\<open>if options.server\<close>) is Python's: \<open>None\<close> and the empty string are
  false, everything else is true.
\<close>

fun truthy :: "string option \<Rightarrow> bool" where
  "truthy None = False"
| "truthy (Some s) = (s \<noteq> [])"

text \<open>\<open>str.lower()\<close> on the ASCII letters; every other character is kept.\<close>

definition lower_char :: "char \<Rightarrow> char" where
  "lower_char c =
     (let n = (of_char c :: nat) in if 65 \<le> n \<and> n \<le> 90 then char_of (n + 32) else c)"

definition lower :: "string \<Rightarrow> string" where
  "lower s = map lower_char s"

text \<open>\<open>s.startswith(p)\<close>.\<close>

definition startswith :: "string \<Rightarrow> string \<Rightarrow> bool" where
  "startswith s p = (take (length p) s = p)"

text \<open>
  The options object returned by the argument parser. Only the attributes that main.py
  reads or writes are named; the record is extensible, so every statement made for
  \<open>'a options_scheme\<close> holds for an options object with any further attributes.
\<close>

record options =
  dac_connection :: bool
  server :: "string option"
  integrated_auth :: bool
  username :: "string option"
  password :: "string option"
  version :: bool

text \<open>
  Standard output is the list of the chunks written to it, oldest first.
  \<open>print(x)\<close> writes \<open>x\<close> followed by a newline.
\<close>

type_synonym stdout = "string list"

definition print :: "string \<Rightarrow> stdout \<Rightarrow> stdout" where
  "print s out = out @ [s @ ''\<newline>'']"

definition MSSQLCLI_TELEMETRY_PROMPT :: string where
  "MSSQLCLI_TELEMETRY_PROMPT =
     ''\<newline>Telemetry\<newline>---------\<newline>'' @
     ''By default, osql-cli collects usage data in order to improve your experience.\<newline>'' @
     ''The data is anonymous and does not include commandline argument values.\<newline>'' @
     ''The data is collected by Microsoft.\<newline>\<newline>'' @
     ''Disable telemetry collection by setting environment variable MSSQL_CLI_TELEMETRY_OPTOUT to '' @
     [CHR 0x27] @ ''True'' @ [CHR 0x27] @ '' or '' @ [CHR 0x27] @ ''1'' @ [CHR 0x27] @ ''.\<newline>\<newline>'' @
     ''Microsoft Privacy statement: https://privacy.microsoft.com/privacystatement\<newline>''"

subsection \<open>configure_and_update_options\<close>

text \<open>
  \<^verbatim>\<open>
  def configure_and_update_options(options):
      if options.dac_connection and options.server and not options.server.lower().startswith("admin:"):
          options.server = "admin:" + options.server

      if not options.integrated_auth:
          if not options.username:
              options.username = input(u'Username (press enter for sa)') or u'sa'
          if not options.password:
              options.password = getpass.getpass()
  \<close>
  The object is mutated in place; the model returns the updated object. The two reads
  from the terminal are modelled by what they return: \<open>typed_username\<close> is the line
  \<open>input\<close> returns and \<open>typed_password\<close> the string \<open>getpass.getpass()\<close> returns, each
  used only if the call is made. \<open>input\<close> writes its prompt to standard output and
  \<open>input(...) or u'sa'\<close> is \<open>sa\<close> when the line typed is empty.
\<close>

definition configure_and_update_options ::
  "string \<Rightarrow> string \<Rightarrow> 'a options_scheme \<Rightarrow> stdout \<Rightarrow> 'a options_scheme \<times> stdout" where
  "configure_and_update_options typed_username typed_password opts out =
     (let opts1 =
            (case server opts of
               Some s \<Rightarrow>
                 if dac_connection opts \<and> truthy (server opts) \<and>
                    \<not> startswith (lower s) ''admin:''
                 then opts\<lparr>server := Some (''admin:'' @ s)\<rparr>
                 else opts
             | None \<Rightarrow> opts)
      in if \<not> integrated_auth opts1 then
           (let (opts2, out2) =
                  (if \<not> truthy (username opts1)
                   then (opts1\<lparr>username :=
                                 Some (if typed_username \<noteq> [] then typed_username else ''sa'')\<rparr>,
                         out @ [''Username (press enter for sa)''])
                   else (opts1, out));
                opts3 =
                  (if \<not> truthy (password opts2)
                   then opts2\<lparr>password := Some typed_password\<rparr>
                   else opts2)
            in (opts3, out2))
         else (opts1, out))"

subsection \<open>display_integrated_auth_message_for_non_windows\<close>

text \<open>
  \<^verbatim>\<open>
  def display_integrated_auth_message_for_non_windows(options):
      if platform.system().lower() != 'windows' and options.integrated_auth:
          options.integrated_auth = False
          print(u'Integrated authentication not supported on this platform')
  \<close>
  \<open>platform_system\<close> is the string \<open>platform.system()\<close> returns.
\<close>

definition display_integrated_auth_message_for_non_windows ::
  "string \<Rightarrow> 'a options_scheme \<Rightarrow> stdout \<Rightarrow> 'a options_scheme \<times> stdout" where
  "display_integrated_auth_message_for_non_windows platform_system opts out =
     (if lower platform_system \<noteq> ''windows'' \<and> integrated_auth opts
      then (opts\<lparr>integrated_auth := False\<rparr>,
            print ''Integrated authentication not supported on this platform'' out)
      else (opts, out))"

subsection \<open>display_version_message and display_telemetry_message\<close>

text \<open>
  \<^verbatim>\<open>
  def display_version_message(options):
      if options.version:
          print('Version:', __version__)
          sys.exit(0)

  def display_telemetry_message():
      print(MSSQLCLI_TELEMETRY_PROMPT)
  \<close>
  \<open>sys.exit(0)\<close> is the result \<open>Inl 0\<close>; the output written before it is kept.
  \<open>version_string\<close> is the text of \<open>__version__\<close>, which is defined outside main.py.
\<close>

definition display_version_message ::
  "string \<Rightarrow> 'a options_scheme \<Rightarrow> stdout \<Rightarrow> (int + unit) \<times> stdout" where
  "display_version_message version_string opts out =
     (if version opts
      then (Inl 0, print (''Version: '' @ version_string) out)
      else (Inr (), out))"

definition display_telemetry_message :: "stdout \<Rightarrow> stdout" where
  "display_telemetry_message out = print MSSQLCLI_TELEMETRY_PROMPT out"

subsection \<open>The file system and create_config_dir_for_first_use\<close>

text \<open>
  The file system maps a path to what is found there: a directory, a regular file, or a
  symbolic link whose target is missing. \<open>os.path.exists\<close> follows links, so it is false
  at a dangling link as well as at a path with no entry and at the empty path.
\<close>

datatype node = Directory | RegularFile | DanglingLink

type_synonym filesystem = "string \<rightharpoonup> node"

datatype os_error = FileNotFoundError | FileExistsError | NotADirectoryError | PermissionError

definition os_path_exists :: "filesystem \<Rightarrow> string \<Rightarrow> bool" where
  "os_path_exists fs p = (p \<noteq> [] \<and> (fs p = Some Directory \<or> fs p = Some RegularFile))"

text \<open>
  \<open>os.makedirs(p)\<close>, with the default \<open>exist_ok=False\<close>, raises \<open>FileNotFoundError\<close> for
  the empty path and \<open>FileExistsError\<close> when there is an entry at \<open>p\<close>, a dangling link
  included. For a path with no entry the result depends on the rest of the machine:
  \<open>NotADirectoryError\<close> under an ancestor that is a regular file, \<open>FileNotFoundError\<close>
  under a dangling link, \<open>PermissionError\<close> where the process may not write; otherwise
  the missing intermediate directories and \<open>p\<close> are created. Which paths are ancestors
  depends on the separators of the platform. The answer of the machine is therefore an
  argument, \<open>os_answer\<close>: the error raised, if any, and the intermediate directories
  created (before the error, when there is one). The result is the error raised, if any,
  and the file system left behind. Nothing that has an entry is changed.
\<close>

definition add_directories :: "string list \<Rightarrow> filesystem \<Rightarrow> filesystem" where
  "add_directories made fs = (\<lambda>q. if q \<in> set made \<and> fs q = None then Some Directory else fs q)"

definition os_makedirs ::
  "os_error option \<times> string list \<Rightarrow> filesystem \<Rightarrow> string \<Rightarrow> os_error option \<times> filesystem" where
  "os_makedirs os_answer fs p =
     (if p = [] then (Some FileNotFoundError, fs)
      else if fs p \<noteq> None then (Some FileExistsError, fs)
      else (case os_answer of
              (Some e, made) \<Rightarrow> (Some e, add_directories (filter (\<lambda>q. q \<noteq> p) made) fs)
            | (None, made) \<Rightarrow> (None, add_directories (p # made) fs)))"

text \<open>
  \<open>posixpath.dirname\<close>, which is \<open>os.path.dirname\<close> on Linux and macOS: the text up to
  the last separator, with the trailing separators removed unless that text consists of
  separators only. On Windows \<open>os.path.dirname\<close> is another function, so the functions
  below take \<open>os.path.dirname\<close> as an argument and this one is an instance of it.
\<close>

definition posixpath_dirname :: "string \<Rightarrow> string" where
  "posixpath_dirname p =
     (let head = rev (dropWhile (\<lambda>c. c \<noteq> CHR ''/'') (rev p))
      in if head \<noteq> [] \<and> \<not> list_all (\<lambda>c. c = CHR ''/'') head
         then rev (dropWhile (\<lambda>c. c = CHR ''/'') (rev head))
         else head)"

text \<open>
  \<^verbatim>\<open>
  def create_config_dir_for_first_use():
      config_dir = os.path.dirname(config_location())
      if not os.path.exists(config_dir):
          os.makedirs(config_dir)
          return True

      return False
  \<close>
  \<open>os_path_dirname\<close> is the platform's \<open>os.path.dirname\<close>. \<open>config_location\<close> is the path
  that \<open>osqlcli.config.config_location()\<close> returns; that module is not part of main.py.
  An exception of \<open>os.makedirs\<close> is not caught: the function raises it and returns
  nothing. The result is the exception (\<open>Inl\<close>) or the value returned (\<open>Inr\<close>), and the
  file system after the call.
\<close>

definition create_config_dir_for_first_use ::
  "(string \<Rightarrow> string) \<Rightarrow> string \<Rightarrow> os_error option \<times> string list \<Rightarrow> filesystem \<Rightarrow>
     (os_error + bool) \<times> filesystem" where
  "create_config_dir_for_first_use os_path_dirname config_location os_answer fs =
     (let config_dir = os_path_dirname config_location
      in if \<not> os_path_exists fs config_dir then
           (case os_makedirs os_answer fs config_dir of
              (Some e, fs') \<Rightarrow> (Inl e, fs')
            | (None, fs') \<Rightarrow> (Inr True, fs'))
         else (Inr False, fs))"

subsection \<open>run_cli_with\<close>

text \<open>
  \<^verbatim>\<open>
  def run_cli_with(options):

      if create_config_dir_for_first_use():
          display_telemetry_message()

      display_version_message(options)
      display_integrated_auth_message_for_non_windows(options)

      configure_and_update_options(options)

      osqlcli = MssqlCli(options)
      osqlcli.connect_to_database()

      telemetry_session.set_server_information(osqlcli.osqlcliclient_main)
      osqlcli.run()
  \<close>
  The model follows the function up to the construction of \<open>MssqlCli(options)\<close>: the
  class \<open>MssqlCli\<close> is defined outside main.py, and the outcome \<open>Started opts\<close> says
  that the client is constructed from \<open>opts\<close>. An exception and \<open>sys.exit\<close> end the
  function at the point where they happen, with the effects made so far.
\<close>

record world =
  files :: filesystem
  written :: stdout

datatype 'a outcome = Raised os_error | Exited int | Started "'a options_scheme"

definition run_cli_with ::
  "(string \<Rightarrow> string) \<Rightarrow> string \<Rightarrow> os_error option \<times> string list \<Rightarrow> string \<Rightarrow> string \<Rightarrow>
     string \<Rightarrow> string \<Rightarrow> 'a options_scheme \<Rightarrow> world \<Rightarrow> 'a outcome \<times> world" where
  "run_cli_with os_path_dirname config_location os_answer version_string platform_system
       typed_username typed_password opts w =
     (case create_config_dir_for_first_use os_path_dirname config_location os_answer (files w) of
        (Inl e, fs1) \<Rightarrow> (Raised e, w\<lparr>files := fs1\<rparr>)
      | (Inr first_use, fs1) \<Rightarrow>
          (let out1 = (if first_use then display_telemetry_message (written w) else written w)
           in case display_version_message version_string opts out1 of
                (Inl code, out2) \<Rightarrow> (Exited code, \<lparr>files = fs1, written = out2\<rparr>)
              | (Inr _, out2) \<Rightarrow>
                  (let (opts3, out3) =
                         display_integrated_auth_message_for_non_windows platform_system opts out2;
                       (opts4, out4) =
                         configure_and_update_options typed_username typed_password opts3 out3
                   in (Started opts4, \<lparr>files = fs1, written = out4\<rparr>))))"

section \<open>The query session state machine\<close>

text \<open>
  The client that turns the backend's notifications into batches (\<open>execute_query\<close> of the
  osqlcli client) is exercised by tests/test_osqlcliclient.py, but its code is not among
  the sources. This section models it from sections 3, 4.4 and 4.5 of the specification.
\<close>

text \<open>Modelled from the spec: the states of a query session,
  \<open>Idle \<rightarrow> AwaitingBatchStart \<rightarrow> AccumulatingRows \<rightarrow> BatchComplete \<rightarrow> (loop or) QueryComplete\<close>;
  the client's session code is missing from the sources.\<close>

datatype session_state = Idle | AwaitingBatchStart | AccumulatingRows | BatchComplete | QueryComplete

text \<open>Modelled from the spec: a Batch holds column metadata (an ordered sequence of name
  and declared type), row data (an ordered sequence of ordered value tuples), an optional
  informational message, the source text the backend attributes to the batch, and an
  error flag; the client's batch type is missing from the sources. Values are kept as
  text.\<close>

type_synonym column = "string \<times> string"

type_synonym row = "string list"

record batch =
  columns :: "column list"
  rows :: "row list"
  message :: "string option"
  source_text :: string
  is_error :: bool

text \<open>Modelled from the spec: the notifications of the transition table that reach a
  query session (query-start, batch-start, result-set-available, row-data, message,
  batch-complete, query-complete); the contracts of the JSON-RPC client are missing from
  the sources. A message carries its text and the backend's error flag.
  The connection-complete notification acts on the connection handle, not on a session,
  and is left out.\<close>

datatype notification =
    QueryStartN string
  | BatchStartN string
  | ResultSetAvailableN "column list"
  | RowDataN "row list"
  | MessageN string bool
  | BatchCompleteN
  | QueryCompleteN

text \<open>Modelled from the spec: a query session owns the Batch being accumulated, the batch
  index, and the ordered caller-facing sequence of the Batches yielded so far; the
  client's session code is missing from the sources. \<open>has_result_set\<close> says whether the
  Batch being accumulated has received its column metadata.\<close>

record session =
  state :: session_state
  query_text :: string
  batch_index :: nat
  current :: "batch option"
  has_result_set :: bool
  emitted :: "batch list"

text \<open>Modelled from the spec: before query-start a session is \<open>Idle\<close> and has yielded
  nothing; the client's session code is missing from the sources.\<close>

definition new_session :: session where
  "new_session =
     \<lparr>state = Idle, query_text = [], batch_index = 0, current = None, has_result_set = False,
      emitted = []\<rparr>"

text \<open>Modelled from the spec: batch-start opens a new Batch and records its attributed
  source text; a Batch may have zero result sets, meaning rows stay empty. The client's
  code is missing from the sources.\<close>

definition open_batch :: "string \<Rightarrow> batch" where
  "open_batch src = \<lparr>columns = [], rows = [], message = None, source_text = src, is_error = False\<rparr>"

text \<open>Modelled from the spec: a message attaches to the current Batch. The Batch holds one
  optional message, so a further text is put after the text already attached, on a line
  of its own, and no text is lost. The client's code is missing from the sources.\<close>

fun attach :: "string \<Rightarrow> string option \<Rightarrow> string option" where
  "attach msg None = Some msg"
| "attach msg (Some earlier) = Some (earlier @ ''\<newline>'' @ msg)"

text \<open>Modelled from the spec: the effect of a notification on the Batch it belongs to.
  result-set-available sets the Batch's column metadata; row-data appends rows to the
  current Batch in arrival order; a message attaches to the current Batch, and if it is
  flagged as an error the Batch's error flag is set. The client's code is missing from the
  sources.\<close>

fun accumulate :: "notification \<Rightarrow> batch \<Rightarrow> batch" where
  "accumulate (ResultSetAvailableN cols) b = b\<lparr>columns := cols\<rparr>"
| "accumulate (RowDataN rs) b = b\<lparr>rows := rows b @ rs\<rparr>"
| "accumulate (MessageN msg err) b =
     b\<lparr>message := attach msg (message b), is_error := (is_error b \<or> err)\<rparr>"
| "accumulate _ b = b"

text \<open>Modelled from the spec: the transition table of section 4.4 with its edge cases, and
  the requirement of section 4.5 that the state machine reaches query-complete, possibly
  with partial batches. query-start opens the session and resets the batch index to 0;
  batch-start opens a new Batch and enters \<open>AccumulatingRows\<close>; result-set-available sets
  the column metadata of the current Batch, and when that Batch already has a result set
  (edge case c: several result sets within one batch are distinct Batches, in the order
  produced) the current Batch is yielded and a new Batch with the same attributed source
  text is opened for the new result set; row-data and message act on the current Batch;
  batch-complete freezes the current Batch, yields it to the caller-facing sequence and
  advances the batch index; query-complete signals end-of-sequence, after the last batch,
  after no batch at all, or in the middle of a batch, whose partial Batch is then yielded.
  The spec gives no transition for any other notification that arrives in a state where
  the table does not expect it; the model leaves the session unchanged there. The
  client's code is missing from the sources.\<close>

fun on_notification :: "notification \<Rightarrow> session \<Rightarrow> session" where
  "on_notification (QueryStartN q) s =
     (if state s = Idle
      then s\<lparr>state := AwaitingBatchStart, query_text := q, batch_index := 0\<rparr>
      else s)"
| "on_notification (BatchStartN src) s =
     (if state s = AwaitingBatchStart \<or> state s = BatchComplete
      then s\<lparr>state := AccumulatingRows, current := Some (open_batch src),
             has_result_set := False\<rparr>
      else s)"
| "on_notification (ResultSetAvailableN cols) s =
     (case current s of
        Some b \<Rightarrow>
          if state s = AccumulatingRows then
            (if has_result_set s
             then s\<lparr>current := Some (accumulate (ResultSetAvailableN cols)
                                      (open_batch (source_text b))),
                    emitted := emitted s @ [b]\<rparr>
             else s\<lparr>current := Some (accumulate (ResultSetAvailableN cols) b),
                    has_result_set := True\<rparr>)
          else s
      | None \<Rightarrow> s)"
| "on_notification BatchCompleteN s =
     (case current s of
        Some b \<Rightarrow>
          if state s = AccumulatingRows
          then s\<lparr>state := BatchComplete, current := None, has_result_set := False,
                 batch_index := Suc (batch_index s), emitted := emitted s @ [b]\<rparr>
          else s
      | None \<Rightarrow> s)"
| "on_notification QueryCompleteN s =
     (if state s = AccumulatingRows
      then s\<lparr>state := QueryComplete, current := None, has_result_set := False,
             emitted := emitted s @ (case current s of Some b \<Rightarrow> [b] | None \<Rightarrow> [])\<rparr>
      else if state s = AwaitingBatchStart \<or> state s = BatchComplete
      then s\<lparr>state := QueryComplete, current := None\<rparr>
      else s)"
| "on_notification n s =
     (if state s = AccumulatingRows
      then s\<lparr>current := map_option (accumulate n) (current s)\<rparr>
      else s)"

text \<open>Modelled from the spec: notifications for one session are delivered in the order
  the backend emitted them, one after the other; the reader loop of the client is
  missing from the sources.\<close>

definition consume :: "notification list \<Rightarrow> session \<Rightarrow> session" where
  "consume ns s = fold on_notification ns s"

text \<open>Modelled from the spec: the notifications the backend sends between a batch-start
  and its batch-complete are result-set-available, row-data and message.\<close>

fun is_body :: "notification \<Rightarrow> bool" where
  "is_body (ResultSetAvailableN _) = True"
| "is_body (RowDataN _) = True"
| "is_body (MessageN _ _) = True"
| "is_body _ = False"

fun is_result_set :: "notification \<Rightarrow> bool" where
  "is_result_set (ResultSetAvailableN _) = True"
| "is_result_set _ = False"

text \<open>Modelled from the spec: the chunks of rows carried by row-data notifications, in
  arrival order.\<close>

fun row_chunks :: "notification list \<Rightarrow> row list list" where
  "row_chunks [] = []"
| "row_chunks (RowDataN rs # ns) = rs # row_chunks ns"
| "row_chunks (_ # ns) = row_chunks ns"

text \<open>Modelled from the spec: the notifications between a batch-start and its
  batch-complete, divided among the Batches they belong to (edge case c of section 4.4).
  A new part begins at every result-set-available that follows an earlier one; \<open>part\<close> is
  the part being read. Each part holds at most one result set, and the parts put
  together are the notifications in arrival order.\<close>

fun result_set_parts :: "notification list \<Rightarrow> notification list \<Rightarrow> notification list list" where
  "result_set_parts part [] = [part]"
| "result_set_parts part (n # ns) =
     (if is_result_set n \<and> list_ex is_result_set part
      then part # result_set_parts [n] ns
      else result_set_parts (part @ [n]) ns)"

text \<open>Modelled from the spec: what the backend sends for one batch (its attributed source
  text and the notifications between batch-start and batch-complete), and for one query:
  query-start, the batches one after the other, query-complete.\<close>

definition batch_stream :: "string \<times> notification list \<Rightarrow> notification list" where
  "batch_stream tb = BatchStartN (fst tb) # snd tb @ [BatchCompleteN]"

definition query_stream :: "string \<Rightarrow> (string \<times> notification list) list \<Rightarrow> notification list" where
  "query_stream q bs = QueryStartN q # concat (map batch_stream bs) @ [QueryCompleteN]"

definition well_formed :: "(string \<times> notification list) list \<Rightarrow> bool" where
  "well_formed bs = list_all (\<lambda>tb. list_all is_body (snd tb)) bs"

text \<open>Modelled from the spec: the Batch that notifications accumulate to when they are
  applied, in arrival order, to a Batch opened for the source text \<open>src\<close>.\<close>

definition collect :: "string \<Rightarrow> notification list \<Rightarrow> batch" where
  "collect src part = fold accumulate part (open_batch src)"

text \<open>Modelled from the spec: the Batches that one batch of the backend gives, in the order
  produced: one for every part of its notifications (edge case c of section 4.4), each
  with the source text the backend attributes to the batch.\<close>

definition batches_of :: "string \<times> notification list \<Rightarrow> batch list" where
  "batches_of tb = map (collect (fst tb)) (result_set_parts [] (snd tb))"

section \<open>Properties of main.py\<close>

subsection \<open>The server prefix of a dedicated administrator connection\<close>

lemma startswith_admin: "startswith (lower (''admin:'' @ s)) ''admin:''"
  by (simp add: startswith_def lower_def lower_char_def)

lemma server_after_configure:
  fixes opts :: "'a options_scheme"
  shows "server (fst (configure_and_update_options u p opts out)) =
     (case server opts of
        Some s \<Rightarrow> if dac_connection opts \<and> s \<noteq> [] \<and> \<not> startswith (lower s) ''admin:''
                  then Some (''admin:'' @ s) else Some s
      | None \<Rightarrow> None)"
  by (simp add: configure_and_update_options_def Let_def split: option.splits prod.splits)

text \<open>
  Claim C8. \<open>configure_and_update_options\<close> is idempotent on the server attribute. For
  every options object with \<open>dac_connection\<close> set and a non-empty server \<open>s0\<close>, whatever is
  typed at the prompts: after one call the server is a string that starts with
  \<open>admin:\<close> when lowered; it is \<open>s0\<close> itself when \<open>s0\<close> already starts with the prefix in
  any letter case, and \<open>admin:\<close> followed by \<open>s0\<close> otherwise; and a second call leaves
  it as the first call made it, so the prefix is never doubled.
\<close>

theorem configure_server_idempotent:
  fixes opts :: "'a options_scheme"
  assumes "dac_connection opts" and "truthy (server opts)"
  shows "\<exists>s0 s. server opts = Some s0
           \<and> server (fst (configure_and_update_options u p opts out)) = Some s
           \<and> startswith (lower s) ''admin:''
           \<and> s = (if startswith (lower s0) ''admin:'' then s0 else ''admin:'' @ s0)
           \<and> server (fst (configure_and_update_options u' p'
                 (fst (configure_and_update_options u p opts out)) out')) = Some s"
proof -
  from assms(2) obtain s0 where s0: "server opts = Some s0" "s0 \<noteq> []"
    by (cases "server opts") auto
  let ?s = "if startswith (lower s0) ''admin:'' then s0 else ''admin:'' @ s0"
  have one: "server (fst (configure_and_update_options u p opts out)) = Some ?s"
    using s0 assms(1) by (simp add: server_after_configure)
  have pre: "startswith (lower ?s) ''admin:''"
    using startswith_admin [of s0] by simp
  have two: "server (fst (configure_and_update_options u' p'
                 (fst (configure_and_update_options u p opts out)) out')) = Some ?s"
    using one pre by (simp add: server_after_configure)
  show ?thesis using s0 one pre two by blast
qed

theorem configure_server_idempotent_witness:
  "dac_connection \<lparr>dac_connection = True, server = Some ''Db1'', integrated_auth = False,
       username = None, password = None, version = False\<rparr>
   \<and> truthy (server \<lparr>dac_connection = True, server = Some ''Db1'', integrated_auth = False,
       username = None, password = None, version = False\<rparr>)
   \<and> server (fst (configure_and_update_options ''amy'' ''pw''
         \<lparr>dac_connection = True, server = Some ''Db1'', integrated_auth = False,
          username = None, password = None, version = False\<rparr> [])) = Some ''admin:Db1''
   \<and> server (fst (configure_and_update_options [] []
         (fst (configure_and_update_options ''amy'' ''pw''
            \<lparr>dac_connection = True, server = Some ''Db1'', integrated_auth = False,
             username = None, password = None, version = False\<rparr> [])) [])) = Some ''admin:Db1''"
proof -
  let ?o = "\<lparr>dac_connection = True, server = Some ''Db1'', integrated_auth = False,
       username = None, password = None, version = False\<rparr>"
  have h1: "dac_connection ?o" by simp
  have h2: "truthy (server ?o)" by simp
  have nb: "\<not> startswith (lower ''Db1'') ''admin:''"
    by (simp add: startswith_def lower_def lower_char_def)
  from configure_server_idempotent [OF h1 h2, of "''amy''" "''pw''" "[]" "[]" "[]" "[]"] nb h1 h2
  show ?thesis by auto
qed

subsection \<open>Integrated authentication outside Windows\<close>

text \<open>
  Claim C9. \<open>display_integrated_auth_message_for_non_windows\<close> leaves \<open>integrated_auth\<close>
  true only if it was true and the lowered platform name is \<open>windows\<close>; the attribute
  changes exactly when the platform is not Windows and it was true; and putting the old
  value of \<open>integrated_auth\<close> back gives the original object, so every other attribute
  (named or not) is unchanged.
\<close>

theorem display_integrated_auth_frame:
  fixes opts :: "'a options_scheme"
  shows "integrated_auth (fst (display_integrated_auth_message_for_non_windows plat opts out)) =
           (integrated_auth opts \<and> lower plat = ''windows'')
       \<and> ((integrated_auth (fst (display_integrated_auth_message_for_non_windows plat opts out))
             \<noteq> integrated_auth opts) = (lower plat \<noteq> ''windows'' \<and> integrated_auth opts))
       \<and> (fst (display_integrated_auth_message_for_non_windows plat opts out))
            \<lparr>integrated_auth := integrated_auth opts\<rparr> = opts"
  by (simp add: display_integrated_auth_message_for_non_windows_def)

subsection \<open>First use: the configuration directory and the telemetry prompt\<close>

lemma add_directories_keeps: "fs q \<noteq> None \<Longrightarrow> add_directories made fs q = fs q"
  by (simp add: add_directories_def)

lemma os_makedirs_keeps: "fs q \<noteq> None \<Longrightarrow> snd (os_makedirs a fs p) q = fs q"
  by (cases a; cases "fst a") (auto simp: os_makedirs_def add_directories_def)

lemma os_makedirs_creates:
  "fst (os_makedirs a fs p) = None \<Longrightarrow> snd (os_makedirs a fs p) p = Some Directory"
  by (auto simp: os_makedirs_def add_directories_def split: prod.splits option.splits if_splits)

lemma create_config_dir_result:
  "create_config_dir_for_first_use dn cl a fs =
     (if os_path_exists fs (dn cl) then (Inr False, fs)
      else (case fst (os_makedirs a fs (dn cl)) of
              Some e \<Rightarrow> Inl e
            | None \<Rightarrow> Inr True,
            snd (os_makedirs a fs (dn cl))))"
  by (simp add: create_config_dir_for_first_use_def Let_def split: prod.splits option.splits)

lemma count_print:
  "count_list (print s out) x = count_list out x + (if s @ ''\<newline>'' = x then 1 else 0)"
  by (simp add: print_def)

lemma count_version [simp]:
  "count_list (snd (display_version_message ver opts out)) (MSSQLCLI_TELEMETRY_PROMPT @ ''\<newline>'')
     = count_list out (MSSQLCLI_TELEMETRY_PROMPT @ ''\<newline>'')"
  by (simp add: display_version_message_def count_print MSSQLCLI_TELEMETRY_PROMPT_def)

lemma count_integrated [simp]:
  "count_list (snd (display_integrated_auth_message_for_non_windows plat opts out))
       (MSSQLCLI_TELEMETRY_PROMPT @ ''\<newline>'')
     = count_list out (MSSQLCLI_TELEMETRY_PROMPT @ ''\<newline>'')"
  by (simp add: display_integrated_auth_message_for_non_windows_def count_print
        MSSQLCLI_TELEMETRY_PROMPT_def)

lemma count_configure [simp]:
  "count_list (snd (configure_and_update_options tu tp opts out))
       (MSSQLCLI_TELEMETRY_PROMPT @ ''\<newline>'')
     = count_list out (MSSQLCLI_TELEMETRY_PROMPT @ ''\<newline>'')"
  by (simp add: configure_and_update_options_def Let_def MSSQLCLI_TELEMETRY_PROMPT_def
        split: option.splits prod.splits)

lemma count_telemetry [simp]:
  "count_list (display_telemetry_message out) (MSSQLCLI_TELEMETRY_PROMPT @ ''\<newline>'')
     = Suc (count_list out (MSSQLCLI_TELEMETRY_PROMPT @ ''\<newline>''))"
  by (simp add: display_telemetry_message_def count_print)

lemma run_cli_with_raised:
  fixes opts :: "'a options_scheme"
  assumes "fst (create_config_dir_for_first_use dn cl a (files w)) = Inl e"
  shows "run_cli_with dn cl a ver plat tu tp opts w =
           (Raised e, w\<lparr>files := snd (create_config_dir_for_first_use dn cl a (files w))\<rparr>)"
  using assms
  by (cases "create_config_dir_for_first_use dn cl a (files w)") (simp add: run_cli_with_def)

lemma run_cli_with_written:
  fixes opts :: "'a options_scheme"
  assumes "fst (create_config_dir_for_first_use dn cl a (files w)) = Inr first_use"
  shows "written (snd (run_cli_with dn cl a ver plat tu tp opts w)) =
    (let out1 = (if first_use then display_telemetry_message (written w) else written w)
     in if version opts then snd (display_version_message ver opts out1)
        else snd (configure_and_update_options tu tp
               (fst (display_integrated_auth_message_for_non_windows plat opts out1))
               (snd (display_integrated_auth_message_for_non_windows plat opts out1))))"
  using assms
  by (cases "create_config_dir_for_first_use dn cl a (files w)")
     (simp add: run_cli_with_def Let_def display_version_message_def split: prod.splits)

text \<open>
  Claim C10, as stated, says that \<open>create_config_dir_for_first_use\<close> returns \<open>True\<close>
  whenever the configuration directory did not exist. It does not when \<open>os.makedirs\<close>
  raises: the exception is not caught and nothing is returned. With the POSIX
  \<open>os.path.dirname\<close>: for \<open>config_location()\<close> equal to \<open>config\<close> the directory part is the
  empty path, which does not exist, and \<open>os.makedirs\<close> raises \<open>FileNotFoundError\<close>; where
  the configuration directory is a dangling link, \<open>os.path.exists\<close> is false and
  \<open>os.makedirs\<close> raises \<open>FileExistsError\<close>; and where the machine refuses the creation
  (here under an ancestor that is a regular file) the error of the machine is raised.
\<close>

theorem first_use_raises_counterexample:
  "\<not> os_path_exists Map.empty (posixpath_dirname ''config'')
   \<and> fst (create_config_dir_for_first_use posixpath_dirname ''config'' (None, []) Map.empty)
       = Inl FileNotFoundError
   \<and> fst (create_config_dir_for_first_use posixpath_dirname ''config'' (None, []) Map.empty)
       \<noteq> Inr True
   \<and> \<not> os_path_exists [''/home/amy/.config/osqlcli'' \<mapsto> DanglingLink]
         (posixpath_dirname ''/home/amy/.config/osqlcli/config'')
   \<and> fst (create_config_dir_for_first_use posixpath_dirname ''/home/amy/.config/osqlcli/config''
          (None, []) [''/home/amy/.config/osqlcli'' \<mapsto> DanglingLink])
       = Inl FileExistsError
   \<and> \<not> os_path_exists [''/home/amy/.config'' \<mapsto> RegularFile]
         (posixpath_dirname ''/home/amy/.config/osqlcli/config'')
   \<and> fst (create_config_dir_for_first_use posixpath_dirname ''/home/amy/.config/osqlcli/config''
          (Some NotADirectoryError, []) [''/home/amy/.config'' \<mapsto> RegularFile])
       = Inl NotADirectoryError"
proof -
  have d0: "posixpath_dirname ''config'' = []"
    by (simp add: posixpath_dirname_def)
  have d1: "posixpath_dirname ''/home/amy/.config/osqlcli/config'' = ''/home/amy/.config/osqlcli''"
    by (simp add: posixpath_dirname_def)
  show ?thesis
    by (simp add: d0 d1 create_config_dir_for_first_use_def os_makedirs_def os_path_exists_def)
qed

text \<open>
  Claim C10, amended. For every \<open>os.path.dirname\<close>, configuration path, file system and
  answer of the machine: if the configuration directory existed before the call,
  \<open>create_config_dir_for_first_use\<close> returns \<open>False\<close> and leaves the file system
  unchanged; if it did not exist, the call either raises the error of \<open>os.makedirs\<close> or
  returns \<open>True\<close> with the directory created. So whenever the call returns, it returns
  \<open>True\<close> if and only if the directory did not exist; and in every case nothing that had
  an entry in the file system is changed. \<open>run_cli_with\<close> writes the telemetry prompt
  once more than was already on standard output exactly when the call returned \<open>True\<close>;
  when the call raises, \<open>run_cli_with\<close> ends with that error and writes nothing.
\<close>

theorem first_use_returns_or_raises:
  fixes opts :: "'a options_scheme"
  shows "(os_path_exists fs (dn cl) \<longrightarrow>
            create_config_dir_for_first_use dn cl a fs = (Inr False, fs))
       \<and> (\<not> os_path_exists fs (dn cl) \<longrightarrow>
            (\<exists>e. fst (create_config_dir_for_first_use dn cl a fs) = Inl e
                  \<and> fst (os_makedirs a fs (dn cl)) = Some e)
            \<or> (fst (create_config_dir_for_first_use dn cl a fs) = Inr True
                \<and> snd (create_config_dir_for_first_use dn cl a fs) (dn cl) = Some Directory))
       \<and> (\<forall>b. fst (create_config_dir_for_first_use dn cl a fs) = Inr b \<longrightarrow>
                b = (\<not> os_path_exists fs (dn cl)))
       \<and> (\<forall>q. fs q \<noteq> None \<longrightarrow> snd (create_config_dir_for_first_use dn cl a fs) q = fs q)
       \<and> count_list (written (snd (run_cli_with dn cl a ver plat tu tp opts w)))
            (MSSQLCLI_TELEMETRY_PROMPT @ ''\<newline>'')
          = count_list (written w) (MSSQLCLI_TELEMETRY_PROMPT @ ''\<newline>'')
            + (if fst (create_config_dir_for_first_use dn cl a (files w)) = Inr True then 1 else 0)
       \<and> (\<forall>e. fst (create_config_dir_for_first_use dn cl a (files w)) = Inl e \<longrightarrow>
              fst (run_cli_with dn cl a ver plat tu tp opts w) = Raised e
              \<and> written (snd (run_cli_with dn cl a ver plat tu tp opts w)) = written w)"
proof (intro conjI)
  show "os_path_exists fs (dn cl) \<longrightarrow>
            create_config_dir_for_first_use dn cl a fs = (Inr False, fs)"
    by (simp add: create_config_dir_result)
next
  show "\<not> os_path_exists fs (dn cl) \<longrightarrow>
            (\<exists>e. fst (create_config_dir_for_first_use dn cl a fs) = Inl e
                  \<and> fst (os_makedirs a fs (dn cl)) = Some e)
            \<or> (fst (create_config_dir_for_first_use dn cl a fs) = Inr True
                \<and> snd (create_config_dir_for_first_use dn cl a fs) (dn cl) = Some Directory)"
    by (cases "fst (os_makedirs a fs (dn cl))")
       (simp_all add: create_config_dir_result os_makedirs_creates)
next
  show "\<forall>b. fst (create_config_dir_for_first_use dn cl a fs) = Inr b \<longrightarrow>
                b = (\<not> os_path_exists fs (dn cl))"
    by (auto simp: create_config_dir_result split: option.splits)
next
  show "\<forall>q. fs q \<noteq> None \<longrightarrow> snd (create_config_dir_for_first_use dn cl a fs) q = fs q"
    by (simp add: create_config_dir_result os_makedirs_keeps)
next
  show "count_list (written (snd (run_cli_with dn cl a ver plat tu tp opts w)))
            (MSSQLCLI_TELEMETRY_PROMPT @ ''\<newline>'')
          = count_list (written w) (MSSQLCLI_TELEMETRY_PROMPT @ ''\<newline>'')
            + (if fst (create_config_dir_for_first_use dn cl a (files w)) = Inr True then 1 else 0)"
  proof (cases "fst (create_config_dir_for_first_use dn cl a (files w))")
    case (Inl e)
    then show ?thesis by (simp add: run_cli_with_raised)
  next
    case (Inr b)
    then show ?thesis by (simp add: run_cli_with_written Let_def)
  qed
next
  show "\<forall>e. fst (create_config_dir_for_first_use dn cl a (files w)) = Inl e \<longrightarrow>
              fst (run_cli_with dn cl a ver plat tu tp opts w) = Raised e
              \<and> written (snd (run_cli_with dn cl a ver plat tu tp opts w)) = written w"
    by (simp add: run_cli_with_raised)
qed

theorem first_use_returns_or_raises_witness:
  "\<not> os_path_exists Map.empty (posixpath_dirname ''/c/osqlcli/config'')
   \<and> fst (create_config_dir_for_first_use posixpath_dirname ''/c/osqlcli/config''
          (None, [''/c'']) Map.empty) = Inr True
   \<and> snd (create_config_dir_for_first_use posixpath_dirname ''/c/osqlcli/config''
          (None, [''/c'']) Map.empty) ''/c/osqlcli'' = Some Directory
   \<and> count_list (written (snd (run_cli_with posixpath_dirname ''/c/osqlcli/config''
         (None, [''/c'']) ''1.0'' ''Linux'' ''amy'' ''pw''
         \<lparr>dac_connection = False, server = Some ''Db1'', integrated_auth = True,
          username = None, password = None, version = False\<rparr>
         \<lparr>files = Map.empty, written = []\<rparr>))) (MSSQLCLI_TELEMETRY_PROMPT @ ''\<newline>'') = 1
   \<and> os_path_exists [''/c/osqlcli'' \<mapsto> Directory] (posixpath_dirname ''/c/osqlcli/config'')
   \<and> create_config_dir_for_first_use posixpath_dirname ''/c/osqlcli/config''
          (None, [''/c'']) [''/c/osqlcli'' \<mapsto> Directory]
        = (Inr False, [''/c/osqlcli'' \<mapsto> Directory])
   \<and> count_list (written (snd (run_cli_with posixpath_dirname ''/c/osqlcli/config''
         (None, [''/c'']) ''1.0'' ''Linux'' ''amy'' ''pw''
         \<lparr>dac_connection = False, server = Some ''Db1'', integrated_auth = True,
          username = None, password = None, version = False\<rparr>
         \<lparr>files = [''/c/osqlcli'' \<mapsto> Directory], written = []\<rparr>)))
         (MSSQLCLI_TELEMETRY_PROMPT @ ''\<newline>'') = 0
   \<and> fst (create_config_dir_for_first_use posixpath_dirname ''/c/osqlcli/config''
          (Some PermissionError, []) Map.empty) = Inl PermissionError
   \<and> fst (run_cli_with posixpath_dirname ''/c/osqlcli/config''
         (Some PermissionError, []) ''1.0'' ''Linux'' ''amy'' ''pw''
         \<lparr>dac_connection = False, server = Some ''Db1'', integrated_auth = True,
          username = None, password = None, version = False\<rparr>
         \<lparr>files = Map.empty, written = []\<rparr>) = Raised PermissionError
   \<and> written (snd (run_cli_with posixpath_dirname ''/c/osqlcli/config''
         (Some PermissionError, []) ''1.0'' ''Linux'' ''amy'' ''pw''
         \<lparr>dac_connection = False, server = Some ''Db1'', integrated_auth = True,
          username = None, password = None, version = False\<rparr>
         \<lparr>files = Map.empty, written = []\<rparr>)) = []"
proof -
  let ?o = "\<lparr>dac_connection = False, server = Some ''Db1'', integrated_auth = True,
          username = None, password = None, version = False\<rparr>"
  have d: "posixpath_dirname ''/c/osqlcli/config'' = ''/c/osqlcli''"
    by (simp add: posixpath_dirname_def)
  have n: "\<not> os_path_exists Map.empty ''/c/osqlcli''"
    by (simp add: os_path_exists_def)
  have y: "os_path_exists [''/c/osqlcli'' \<mapsto> Directory] ''/c/osqlcli''"
    by (simp add: os_path_exists_def)
  have m1: "fst (os_makedirs (None, [''/c'']) Map.empty ''/c/osqlcli'') = None"
    by (simp add: os_makedirs_def)
  have m2: "fst (os_makedirs (Some PermissionError, []) Map.empty ''/c/osqlcli'') = Some PermissionError"
    by (simp add: os_makedirs_def)
  have c1: "fst (create_config_dir_for_first_use posixpath_dirname ''/c/osqlcli/config''
          (None, [''/c'']) Map.empty) = Inr True"
    by (simp add: create_config_dir_result d n m1)
  have c3: "fst (create_config_dir_for_first_use posixpath_dirname ''/c/osqlcli/config''
          (Some PermissionError, []) Map.empty) = Inl PermissionError"
    by (simp add: create_config_dir_result d n m2)
  from first_use_returns_or_raises
         [of "Map.empty" posixpath_dirname "''/c/osqlcli/config''" "(None, [''/c''])"
             "''1.0''" "''Linux''" "''amy''" "''pw''" ?o "\<lparr>files = Map.empty, written = []\<rparr>"]
       first_use_returns_or_raises
         [of "[''/c/osqlcli'' \<mapsto> Directory]" posixpath_dirname "''/c/osqlcli/config''"
             "(None, [''/c''])" "''1.0''" "''Linux''" "''amy''" "''pw''" ?o
             "\<lparr>files = [''/c/osqlcli'' \<mapsto> Directory], written = []\<rparr>"]
       first_use_returns_or_raises
         [of "Map.empty" posixpath_dirname "''/c/osqlcli/config''" "(Some PermissionError, [])"
             "''1.0''" "''Linux''" "''amy''" "''pw''" ?o "\<lparr>files = Map.empty, written = []\<rparr>"]
       d n y c1 c3
  show ?thesis by simp
qed

section \<open>Properties of the query session state machine\<close>

lemma consume_append: "consume (xs @ ys) s = consume ys (consume xs s)"
  by (simp add: consume_def)

lemma consume_Cons: "consume (n # ns) s = consume ns (on_notification n s)"
  by (simp add: consume_def)

lemma result_set_parts_not_empty: "result_set_parts part ns \<noteq> []"
  by (induction ns arbitrary: part) auto

lemma concat_result_set_parts: "concat (result_set_parts part ns) = part @ ns"
  by (induction ns arbitrary: part) auto

lemma source_text_fold: "source_text (fold accumulate part b) = source_text b"
proof (induction part arbitrary: b)
  case Nil
  then show ?case by simp
next
  case (Cons n part)
  then show ?case by (cases n) simp_all
qed

lemma source_text_collect: "source_text (collect src part) = src"
  by (simp add: collect_def source_text_fold open_batch_def)

lemma collect_snoc: "collect src (part @ [n]) = accumulate n (collect src part)"
  by (simp add: collect_def)

lemma consume_body:
  assumes "list_all is_body body" and "state s = AccumulatingRows"
    and "current s = Some (collect src part)"
    and "has_result_set s = list_ex is_result_set part"
  shows "consume body s =
           s\<lparr>current := Some (collect src (last (result_set_parts part body))),
             has_result_set := list_ex is_result_set (last (result_set_parts part body)),
             emitted := emitted s @ map (collect src) (butlast (result_set_parts part body))\<rparr>"
  using assms
proof (induction body arbitrary: s part)
  case Nil
  then show ?case by (simp add: consume_def)
next
  case (Cons n body)
  from Cons.prems(1) have nb: "is_body n" and rest: "list_all is_body body" by simp_all
  show ?case
  proof (cases "is_result_set n \<and> list_ex is_result_set part")
    case True
    then obtain cols where n: "n = ResultSetAvailableN cols" by (cases n) auto
    let ?s = "s\<lparr>current := Some (collect src [n]), emitted := emitted s @ [collect src part]\<rparr>"
    have st: "on_notification n s = ?s"
      using True Cons.prems(2,3,4) n by (simp add: collect_def source_text_collect [unfolded collect_def])
    have ih: "consume body ?s =
           ?s\<lparr>current := Some (collect src (last (result_set_parts [n] body))),
             has_result_set := list_ex is_result_set (last (result_set_parts [n] body)),
             emitted := emitted ?s @ map (collect src) (butlast (result_set_parts [n] body))\<rparr>"
      using rest Cons.prems(2,4) True n by (intro Cons.IH) simp_all
    have parts: "result_set_parts part (n # body) = part # result_set_parts [n] body"
      using True by simp
    show ?thesis
      using st ih result_set_parts_not_empty [of "[n]" body]
      by (simp add: consume_Cons parts del: result_set_parts.simps)
  next
    case False
    let ?s = "s\<lparr>current := Some (collect src (part @ [n])),
                 has_result_set := list_ex is_result_set (part @ [n])\<rparr>"
    have st: "on_notification n s = ?s"
      using False nb Cons.prems(2,3,4) by (cases n) (auto simp: collect_snoc)
    have ih: "consume body ?s =
           ?s\<lparr>current := Some (collect src (last (result_set_parts (part @ [n]) body))),
             has_result_set := list_ex is_result_set (last (result_set_parts (part @ [n]) body)),
             emitted := emitted ?s @ map (collect src) (butlast (result_set_parts (part @ [n]) body))\<rparr>"
      using rest Cons.prems(2) by (intro Cons.IH) simp_all
    have parts: "result_set_parts part (n # body) = result_set_parts (part @ [n]) body"
      using False by auto
    show ?thesis
      using st ih by (simp add: consume_Cons parts del: result_set_parts.simps)
  qed
qed

lemma consume_batch:
  assumes "list_all is_body (snd tb)" and "state s = AwaitingBatchStart \<or> state s = BatchComplete"
  shows "consume (batch_stream tb) s =
           s\<lparr>state := BatchComplete, current := None, has_result_set := False,
             batch_index := Suc (batch_index s), emitted := emitted s @ batches_of tb\<rparr>"
proof -
  let ?parts = "result_set_parts [] (snd tb)"
  let ?s1 = "s\<lparr>state := AccumulatingRows, current := Some (collect (fst tb) []),
               has_result_set := False\<rparr>"
  have a: "on_notification (BatchStartN (fst tb)) s = ?s1"
    using assms(2) by (auto simp: collect_def)
  have b: "consume (snd tb) ?s1 =
             ?s1\<lparr>current := Some (collect (fst tb) (last ?parts)),
                  has_result_set := list_ex is_result_set (last ?parts),
                  emitted := emitted ?s1 @ map (collect (fst tb)) (butlast ?parts)\<rparr>"
    using assms(1) by (intro consume_body) simp_all
  have c: "map (collect (fst tb)) (butlast ?parts) @ [collect (fst tb) (last ?parts)]
             = batches_of tb"
  proof -
    have "butlast ?parts @ [last ?parts] = ?parts"
      using result_set_parts_not_empty [of "[]" "snd tb"] by simp
    then have "map (collect (fst tb)) (butlast ?parts @ [last ?parts]) = batches_of tb"
      by (simp only: batches_of_def)
    then show ?thesis by simp
  qed
  have "consume (batch_stream tb) s = on_notification BatchCompleteN (consume (snd tb) ?s1)"
    using a by (simp add: batch_stream_def consume_def)
  then show ?thesis using c by (simp add: b)
qed

lemma consume_batches:
  "well_formed bs \<Longrightarrow> state s = AwaitingBatchStart \<or> state s = BatchComplete \<Longrightarrow>
   emitted (consume (concat (map batch_stream bs)) s) = emitted s @ concat (map batches_of bs)
   \<and> (state (consume (concat (map batch_stream bs)) s) = AwaitingBatchStart
      \<or> state (consume (concat (map batch_stream bs)) s) = BatchComplete)"
proof (induction bs arbitrary: s)
  case Nil
  then show ?case by (simp add: consume_def)
next
  case (Cons tb bs)
  from Cons.prems(1) have h: "list_all is_body (snd tb)" and r: "well_formed bs"
    by (simp_all add: well_formed_def)
  let ?s = "s\<lparr>state := BatchComplete, current := None, has_result_set := False,
             batch_index := Suc (batch_index s), emitted := emitted s @ batches_of tb\<rparr>"
  have one: "consume (batch_stream tb) s = ?s" by (rule consume_batch [OF h Cons.prems(2)])
  have "emitted (consume (concat (map batch_stream bs)) ?s) = emitted ?s @ concat (map batches_of bs)
   \<and> (state (consume (concat (map batch_stream bs)) ?s) = AwaitingBatchStart
      \<or> state (consume (concat (map batch_stream bs)) ?s) = BatchComplete)"
    using r by (intro Cons.IH) simp_all
  then show ?case by (simp add: consume_append one)
qed

lemma consume_query:
  assumes "well_formed bs"
  shows "emitted (consume (query_stream q bs) new_session) = concat (map batches_of bs)"
    and "state (consume (query_stream q bs) new_session) = QueryComplete"
proof -
  let ?s0 = "new_session\<lparr>state := AwaitingBatchStart, query_text := q, batch_index := 0\<rparr>"
  let ?s1 = "consume (concat (map batch_stream bs)) ?s0"
  have a: "on_notification (QueryStartN q) new_session = ?s0" by (simp add: new_session_def)
  have b: "emitted ?s1 = emitted ?s0 @ concat (map batches_of bs)
     \<and> (state ?s1 = AwaitingBatchStart \<or> state ?s1 = BatchComplete)"
    using assms by (intro consume_batches) simp_all
  have c: "consume (query_stream q bs) new_session = on_notification QueryCompleteN ?s1"
    using a by (simp add: query_stream_def consume_def)
  from b have e: "emitted ?s1 = concat (map batches_of bs)" by (simp add: new_session_def)
  from b have st: "state ?s1 = AwaitingBatchStart \<or> state ?s1 = BatchComplete" by simp
  show "emitted (consume (query_stream q bs) new_session) = concat (map batches_of bs)"
    unfolding c using e st by auto
  show "state (consume (query_stream q bs) new_session) = QueryComplete"
    unfolding c using st by auto
qed

lemma on_notification_not_idle: "state s \<noteq> Idle \<Longrightarrow> state (on_notification n s) \<noteq> Idle"
  by (cases n) (auto split: option.splits)

lemma consume_not_idle: "state s \<noteq> Idle \<Longrightarrow> state (consume ns s) \<noteq> Idle"
proof (induction ns arbitrary: s)
  case Nil
  then show ?case by (simp add: consume_def)
next
  case (Cons n ns)
  then show ?case by (simp add: consume_Cons on_notification_not_idle)
qed

lemma query_complete_ends: "state s \<noteq> Idle \<Longrightarrow> state (on_notification QueryCompleteN s) = QueryComplete"
  by (cases "state s") simp_all

lemma every_query_ends:
  "state (consume (QueryStartN q # ns @ [QueryCompleteN]) new_session) = QueryComplete"
proof -
  let ?s0 = "on_notification (QueryStartN q) new_session"
  have "state ?s0 \<noteq> Idle" by (simp add: new_session_def)
  then have "state (consume ns ?s0) \<noteq> Idle" by (rule consume_not_idle)
  then have "state (on_notification QueryCompleteN (consume ns ?s0)) = QueryComplete"
    by (rule query_complete_ends)
  then show ?thesis by (simp add: consume_def del: on_notification.simps)
qed

lemma rows_fold_accumulate:
  "rows (fold accumulate part b) = rows b @ concat (row_chunks part)"
proof (induction part arbitrary: b)
  case Nil
  then show ?case by simp
next
  case (Cons n part)
  then show ?case by (cases n) simp_all
qed

lemma rows_collect: "rows (collect src part) = concat (row_chunks part)"
  by (simp add: collect_def rows_fold_accumulate open_batch_def)

lemma is_error_fold_accumulate:
  "is_error (fold accumulate part b) = (is_error b \<or> (\<exists>m. MessageN m True \<in> set part))"
proof (induction part arbitrary: b)
  case Nil
  then show ?case by simp
next
  case (Cons n part)
  then show ?case by (cases n) auto
qed

lemma attach_not_empty:
  "msg \<noteq> [] \<or> (\<exists>m. earlier = Some m \<and> m \<noteq> []) \<Longrightarrow> \<exists>m'. attach msg earlier = Some m' \<and> m' \<noteq> []"
  by (cases earlier) auto

lemma message_fold_accumulate:
  assumes "(\<exists>m. message b = Some m \<and> m \<noteq> []) \<or> (\<exists>m e. MessageN m e \<in> set part \<and> m \<noteq> [])"
  shows "\<exists>m'. message (fold accumulate part b) = Some m' \<and> m' \<noteq> []"
  using assms
proof (induction part arbitrary: b)
  case Nil
  then show ?case by auto
next
  case (Cons n part)
  have "(\<exists>m. message (accumulate n b) = Some m \<and> m \<noteq> [])
        \<or> (\<exists>m e. MessageN m e \<in> set part \<and> m \<noteq> [])"
  proof (cases "\<exists>m e. MessageN m e \<in> set part \<and> m \<noteq> []")
    case True
    then show ?thesis by simp
  next
    case False
    with Cons.prems have h: "(\<exists>m. message b = Some m \<and> m \<noteq> []) \<or> (\<exists>m e. n = MessageN m e \<and> m \<noteq> [])"
      by auto
    have "\<exists>m. message (accumulate n b) = Some m \<and> m \<noteq> []"
    proof (cases n)
      case (MessageN msg err)
      then show ?thesis using h attach_not_empty [of msg "message b"] by auto
    qed (use h in auto)
    then show ?thesis by simp
  qed
  then have "\<exists>m'. message (fold accumulate part (accumulate n b)) = Some m' \<and> m' \<noteq> []"
    by (rule Cons.IH)
  then show ?case by simp
qed

lemma message_in_some_part:
  assumes "n \<in> set body"
  shows "\<exists>part \<in> set (result_set_parts [] body). n \<in> set part"
proof -
  have "set body = set (concat (result_set_parts [] body))"
    by (simp add: concat_result_set_parts)
  with assms show ?thesis by auto
qed

lemma batches_of_not_empty: "batches_of tb \<noteq> []"
  by (simp add: batches_of_def result_set_parts_not_empty)

text \<open>
  Claim C4. For the notifications of a query in which the notifications between each
  batch-start and its batch-complete are result-set-available, row-data and message
  notifications, the yielded Batches are, in order, one for every part of every batch,
  and the rows stored in each Batch are the concatenation, in arrival order, of the rows
  carried by the row-data notifications of its part. The rows depend on the chunks only
  through their concatenation, and nothing is sorted or removed.
\<close>

theorem batch_rows_in_arrival_order:
  assumes "well_formed bs"
  shows "map rows (emitted (consume (query_stream q bs) new_session)) =
           concat (map (\<lambda>tb. map (\<lambda>part. concat (row_chunks part))
                                 (result_set_parts [] (snd tb))) bs)"
proof -
  have "map rows (batches_of tb) =
          map (\<lambda>part. concat (row_chunks part)) (result_set_parts [] (snd tb))" for tb
    by (simp add: batches_of_def rows_collect)
  then have "map rows (concat (map batches_of bs)) =
          concat (map (\<lambda>tb. map (\<lambda>part. concat (row_chunks part))
                                 (result_set_parts [] (snd tb))) bs)"
    by (simp add: map_concat comp_def)
  then show ?thesis using consume_query(1) [OF assms, of q] by simp
qed

theorem batch_rows_in_arrival_order_witness:
  "well_formed [(''EXEC sp_osqlcli_multiple_results'',
       [ResultSetAvailableN [(''Name'', ''varchar'')],
        RowDataN [[''Morning'']], RowDataN [[''Evening'']],
        ResultSetAvailableN [(''Name'', ''varchar'')],
        RowDataN [[''Dawn''], [''Dusk'']], RowDataN [[''Midnight'']]])]
   \<and> map rows (emitted (consume (query_stream ''EXEC sp_osqlcli_multiple_results''
         [(''EXEC sp_osqlcli_multiple_results'',
           [ResultSetAvailableN [(''Name'', ''varchar'')],
            RowDataN [[''Morning'']], RowDataN [[''Evening'']],
            ResultSetAvailableN [(''Name'', ''varchar'')],
            RowDataN [[''Dawn''], [''Dusk'']], RowDataN [[''Midnight'']]])]) new_session))
       = [[[''Morning''], [''Evening'']], [[''Dawn''], [''Dusk''], [''Midnight'']]]"
proof -
  let ?bs = "[(''EXEC sp_osqlcli_multiple_results'',
       [ResultSetAvailableN [(''Name'', ''varchar'')],
        RowDataN [[''Morning'']], RowDataN [[''Evening'']],
        ResultSetAvailableN [(''Name'', ''varchar'')],
        RowDataN [[''Dawn''], [''Dusk'']], RowDataN [[''Midnight'']]])]"
  have h: "well_formed ?bs" by (simp add: well_formed_def)
  from batch_rows_in_arrival_order [OF h, of "''EXEC sp_osqlcli_multiple_results''"] h
  show ?thesis by simp
qed

text \<open>
  Claim C3. In a query whose batch \<open>k\<close> fails, that is, receives a message flagged as an
  error whose text is not empty: the yielded sequence consists of the Batches of the
  earlier batches, the Batches of batch \<open>k\<close> and the Batches of every later batch, in
  this order; one of the Batches of batch \<open>k\<close> has its error flag set, carries the source
  text the backend attributes to the batch and has a non-empty message; every later
  batch yields at least one Batch; and the session reaches \<open>QueryComplete\<close>, the end of
  the sequence. Moreover the session of a started query reaches \<open>QueryComplete\<close> at its
  query-complete notification whatever notifications arrive before it.
\<close>

theorem batch_error_does_not_end_session:
  assumes "well_formed bs" and "k < length bs"
    and "MessageN m True \<in> set (snd (bs ! k))" and "m \<noteq> []"
  shows "emitted (consume (query_stream q bs) new_session) =
           concat (map batches_of (take k bs)) @ batches_of (bs ! k)
             @ concat (map batches_of (drop (Suc k) bs))
       \<and> (\<exists>b \<in> set (batches_of (bs ! k)).
             is_error b \<and> source_text b = fst (bs ! k)
             \<and> (\<exists>m'. message b = Some m' \<and> m' \<noteq> []))
       \<and> (\<forall>tb \<in> set (drop (Suc k) bs). batches_of tb \<noteq> [])
       \<and> state (consume (query_stream q bs) new_session) = QueryComplete
       \<and> (\<forall>ns. state (consume (QueryStartN q # ns @ [QueryCompleteN]) new_session)
                 = QueryComplete)"
proof -
  have split: "bs = take k bs @ bs ! k # drop (Suc k) bs"
    using assms(2) by (simp add: id_take_nth_drop)
  have "concat (map batches_of bs) =
          concat (map batches_of (take k bs @ bs ! k # drop (Suc k) bs))"
    using split by simp
  then have out: "emitted (consume (query_stream q bs) new_session) =
           concat (map batches_of (take k bs)) @ batches_of (bs ! k)
             @ concat (map batches_of (drop (Suc k) bs))"
    using consume_query(1) [OF assms(1), of q] by simp
  have fin: "state (consume (query_stream q bs) new_session) = QueryComplete"
    by (rule consume_query(2) [OF assms(1)])
  from message_in_some_part [OF assms(3)]
  obtain part where part: "part \<in> set (result_set_parts [] (snd (bs ! k)))"
    and inpart: "MessageN m True \<in> set part" by blast
  let ?b = "collect (fst (bs ! k)) part"
  have mem: "?b \<in> set (batches_of (bs ! k))"
    using part by (simp add: batches_of_def)
  have err: "is_error ?b"
    using inpart by (auto simp: collect_def is_error_fold_accumulate)
  have msg: "\<exists>m'. message ?b = Some m' \<and> m' \<noteq> []"
    unfolding collect_def using inpart assms(4) by (intro message_fold_accumulate) blast
  have failing: "\<exists>b \<in> set (batches_of (bs ! k)).
             is_error b \<and> source_text b = fst (bs ! k)
             \<and> (\<exists>m'. message b = Some m' \<and> m' \<noteq> [])"
    using mem err msg source_text_collect by blast
  show ?thesis
    using out fin failing by (simp add: batches_of_not_empty every_query_ends)
qed

theorem batch_error_does_not_end_session_witness:
  "well_formed [(''select x from teapot'', [MessageN ''Invalid object name teapot.'' True]),
                (''select 2'', [ResultSetAvailableN [([], ''int'')], RowDataN [[''2'']],
                                MessageN ''(1 row affected)'' False])]
   \<and> emitted (consume (query_stream ''select x from teapot; select 2;''
         [(''select x from teapot'', [MessageN ''Invalid object name teapot.'' True]),
          (''select 2'', [ResultSetAvailableN [([], ''int'')], RowDataN [[''2'']],
                          MessageN ''(1 row affected)'' False])]) new_session)
       = [\<lparr>columns = [], rows = [], message = Some ''Invalid object name teapot.'',
           source_text = ''select x from teapot'', is_error = True\<rparr>,
          \<lparr>columns = [([], ''int'')], rows = [[''2'']], message = Some ''(1 row affected)'',
           source_text = ''select 2'', is_error = False\<rparr>]
   \<and> state (consume (query_stream ''select x from teapot; select 2;''
         [(''select x from teapot'', [MessageN ''Invalid object name teapot.'' True]),
          (''select 2'', [ResultSetAvailableN [([], ''int'')], RowDataN [[''2'']],
                          MessageN ''(1 row affected)'' False])]) new_session) = QueryComplete"
proof -
  let ?bs = "[(''select x from teapot'', [MessageN ''Invalid object name teapot.'' True]),
              (''select 2'', [ResultSetAvailableN [([], ''int'')], RowDataN [[''2'']],
                              MessageN ''(1 row affected)'' False])]"
  have h1: "well_formed ?bs" by (simp add: well_formed_def)
  have h2: "0 < length ?bs" by simp
  have h3: "MessageN ''Invalid object name teapot.'' True \<in> set (snd (?bs ! 0))" by simp
  have h4: "''Invalid object name teapot.'' \<noteq> []" by simp
  have b0: "batches_of (''select x from teapot'', [MessageN ''Invalid object name teapot.'' True])
      = [\<lparr>columns = [], rows = [], message = Some ''Invalid object name teapot.'',
           source_text = ''select x from teapot'', is_error = True\<rparr>]"
    by (simp add: batches_of_def collect_def open_batch_def)
  have b1: "batches_of (''select 2'', [ResultSetAvailableN [([], ''int'')], RowDataN [[''2'']],
                              MessageN ''(1 row affected)'' False])
      = [\<lparr>columns = [([], ''int'')], rows = [[''2'']], message = Some ''(1 row affected)'',
           source_text = ''select 2'', is_error = False\<rparr>]"
    by (simp add: batches_of_def collect_def open_batch_def)
  from batch_error_does_not_end_session
         [OF h1 h2 h3 h4, of "''select x from teapot; select 2;''"] h1 b0 b1
  show ?thesis by simp
qed

end
